theory Spec2Isabelle
  imports Complex_Main "HOL-Library.AList"
begin

section \<open>Data model\<close>

text \<open>
  The report and user documents of the civic-report service, as the Mongoose schemas
  \<^verbatim>\<open>reportSchema\<close> and \<^verbatim>\<open>userSchema\<close> declare them, and the
  request handlers of the report controller and the admin controller as functions from
  the store to a response and the store afterwards.

  Document ids are the hexadecimal strings the routes receive (\<^verbatim>\<open>req.params.reportId\<close>,
  \<^verbatim>\<open>req.user.userId\<close>). Dates are natural numbers (a clock reading).
  Calls to the side channels (socket emit, push notification, blockchain notary) change
  no document and sit inside their own \<^verbatim>\<open>try/catch\<close>; they are left out of
  the state.
\<close>

type_synonym oid = string

datatype status = SUBMITTED | ACKNOWLEDGED | RESOLVED | DELETED

datatype badge = Bronze | Silver | Gold | Platinum

text \<open>
  A JavaScript number: a finite value (taken as a real, of which the finite doubles are a
  subset; the handlers only compare numbers with the constants 0, 90 and 180), the two
  infinities, or NaN.
\<close>

datatype jsnum = NaN | NegInf | Fin real | PosInf

text \<open>A field of a request body: absent, null, a boolean, a number or a string.\<close>

datatype jsval = Undefined | Null | JBool bool | JNum jsnum | JStr string

record report =
  title :: string
  description :: string
  coordinates :: "jsnum list"
  address :: "string option"
  image_url :: "string option"
  voice_url :: "string option"
  department :: string
  reportStatus :: status
  severity :: string
  userId :: oid
  upvotes :: int
  upvotedBy :: "oid list"
  mlClassified :: bool
  mlSeverity :: "string option"
  mlDepartment :: "string option"
  mlTitle :: "string option"
  mlConflicts :: "string option"
  mlConfidence :: "(jsnum \<times> jsnum) option"
  isAcknowledged :: bool
  acknowledgedAt :: "nat option"
  acknowledgedBy :: "oid option"

text \<open>
  The reputation fields of a user. \<^verbatim>\<open>points\<close> and \<^verbatim>\<open>monthlyPoints\<close>
  are declared \<^verbatim>\<open>{ type: Number, default: 0, min: 0 }\<close>, so a stored value is a
  natural number.
\<close>

record user =
  points :: nat
  monthlyPoints :: nat
  lastMonthlyReset :: nat
  badge :: badge

text \<open>The payload \<^verbatim>\<open>queueClassificationJob\<close> pushes on the Redis list.\<close>

record job =
  job_reportId :: oid
  job_description :: string
  job_imageUrl :: "string option"
  job_title :: string

text \<open>
  The store: the report collection in insertion order (an association list from
  \<^verbatim>\<open>_id\<close> to document), the user collection, and the list
  \<^verbatim>\<open>ml_classification_queue\<close>.
\<close>

record db =
  reports :: "(oid \<times> report) list"
  users :: "oid \<Rightarrow> user option"
  ml_queue :: "job list"

text \<open>
  The failures a handler answers with. \<^verbatim>\<open>status_code\<close> gives the HTTP status
  the source sends with each.
\<close>

datatype validation = MissingCoordinates | InvalidCoordinates | InvalidIdFormat

datatype error =
    ValidationError validation
  | NotFound
  | InvalidTransition
  | InvalidState
  | Forbidden
  | DatabaseError
  | ServerError

fun status_code :: "error \<Rightarrow> nat" where
  "status_code (ValidationError v) = 400"
| "status_code NotFound = 404"
| "status_code InvalidTransition = 400"
| "status_code InvalidState = 400"
| "status_code Forbidden = 403"
| "status_code DatabaseError = 500"
| "status_code ServerError = 500"

section \<open>Reputation: \<^verbatim>\<open>updateBadge\<close>, \<^verbatim>\<open>addPoints\<close>, \<^verbatim>\<open>resetMonthlyPoints\<close>\<close>

text \<open>
  \<^verbatim>\<open>updateBadge\<close> returns whether the badge changed, and the user with the badge
  recomputed.
\<close>

definition updateBadge :: "user \<Rightarrow> bool \<times> user" where
  "updateBadge u =
     (let newBadge =
        (if points u \<ge> 1000 then Platinum
         else if points u \<ge> 500 then Gold
         else if points u \<ge> 200 then Silver
         else Bronze)
      in if badge u \<noteq> newBadge then (True, u\<lparr>badge := newBadge\<rparr>) else (False, u))"

definition addPoints :: "nat \<Rightarrow> user \<Rightarrow> user" where
  "addPoints n u =
     snd (updateBadge (u\<lparr>points := points u + n, monthlyPoints := monthlyPoints u + n\<rparr>))"

definition resetMonthlyPoints :: "nat \<Rightarrow> user \<Rightarrow> user" where
  "resetMonthlyPoints now u = u\<lparr>monthlyPoints := 0, lastMonthlyReset := now\<rparr>"

section \<open>JavaScript values in a request body\<close>

text \<open>
  \<^verbatim>\<open>!v\<close>: undefined, null, false, 0, NaN and the empty string are falsy, every
  other value is truthy.
\<close>

fun falsy :: "jsval \<Rightarrow> bool" where
  "falsy Undefined = True"
| "falsy Null = True"
| "falsy (JBool b) = (b = False)"
| "falsy (JNum n) = (n = NaN \<or> n = Fin 0)"
| "falsy (JStr s) = (s = [])"

text \<open>\<^verbatim>\<open>s || dflt\<close> for an optional string field.\<close>

fun or_default :: "string option \<Rightarrow> string \<Rightarrow> string" where
  "or_default None dflt = dflt"
| "or_default (Some s) dflt = (if s = [] then dflt else s)"

fun truthy_str :: "string option \<Rightarrow> bool" where
  "truthy_str None = False"
| "truthy_str (Some s) = (s \<noteq> [])"

text \<open>\<^verbatim>\<open>x < c\<close> and \<^verbatim>\<open>x > c\<close> for a number x and a finite constant c.\<close>

fun js_lt :: "jsnum \<Rightarrow> real \<Rightarrow> bool" where
  "js_lt NaN c = False"
| "js_lt NegInf c = True"
| "js_lt (Fin x) c = (x < c)"
| "js_lt PosInf c = False"

fun js_gt :: "jsnum \<Rightarrow> real \<Rightarrow> bool" where
  "js_gt NaN c = False"
| "js_gt NegInf c = False"
| "js_gt (Fin x) c = (x > c)"
| "js_gt PosInf c = True"

text \<open>
  What the handlers take from their surroundings: the language's reading of a string as a
  number (\<^verbatim>\<open>ToNumber\<close>, applied by a comparison with a number) and
  \<^verbatim>\<open>parseFloat\<close> on a string; the store's own acceptance of a new document
  (schema casting, enum validation, the 2dsphere index); the environment flag
  \<^verbatim>\<open>DISABLE_ML_PROCESSING\<close>; and whether the Redis push succeeds.
\<close>

record platform =
  str_to_number :: "string \<Rightarrow> jsnum"
  str_parse_float :: "string \<Rightarrow> jsnum"
  db_accepts :: "report \<Rightarrow> bool"
  ml_disabled :: bool
  queue_open :: bool

fun to_number :: "platform \<Rightarrow> jsval \<Rightarrow> jsnum" where
  "to_number p Undefined = NaN"
| "to_number p Null = Fin 0"
| "to_number p (JBool b) = Fin (if b then 1 else 0)"
| "to_number p (JNum n) = n"
| "to_number p (JStr s) = str_to_number p s"

fun parseFloat :: "platform \<Rightarrow> jsval \<Rightarrow> jsnum" where
  "parseFloat p (JNum n) = n"
| "parseFloat p (JStr s) = str_parse_float p s"
| "parseFloat p v = NaN"

text \<open>The test \<^verbatim>\<open>reportId.match(/^[0-9a-fA-F]{24}$/)\<close>.\<close>

definition is_hex :: "char \<Rightarrow> bool" where
  "is_hex c = (c \<in> set ''0123456789abcdefABCDEF'')"

definition valid_oid :: "string \<Rightarrow> bool" where
  "valid_oid s = (length s = 24 \<and> list_all is_hex s)"

section \<open>Store access\<close>

text \<open>
  \<^verbatim>\<open>findById\<close> is the lookup of a document by its id, an id being written in
  its canonical spelling (24 lower-case hexadecimal digits). A string that the driver
  cannot read as an ObjectId is the id of no document; the driver's own failure on such a
  string is not part of the model, which reads the lookup as finding nothing.
  \<^verbatim>\<open>save()\<close> on a loaded document writes it back under its id.
\<close>

definition findById :: "db \<Rightarrow> oid \<Rightarrow> report option" where
  "findById d rid = map_of (reports d) rid"

definition save_report :: "oid \<Rightarrow> report \<Rightarrow> db \<Rightarrow> db" where
  "save_report rid r d = d\<lparr>reports := AList.update rid r (reports d)\<rparr>"

definition save_user :: "oid \<Rightarrow> user \<Rightarrow> db \<Rightarrow> db" where
  "save_user uid u d = d\<lparr>users := (users d)(uid \<mapsto> u)\<rparr>"

text \<open>
  \<^verbatim>\<open>populate('upvotedBy', ...)\<close>: the entries that refer to an existing user (a
  populated array drops the others).
\<close>

definition populate_upvotedBy :: "db \<Rightarrow> oid list \<Rightarrow> oid list" where
  "populate_upvotedBy d ids = filter (\<lambda>i. users d i \<noteq> None) ids"

section \<open>Report creation: \<^verbatim>\<open>createReport\<close> and \<^verbatim>\<open>queueClassificationJob\<close>\<close>

record create_body =
  b_title :: "string option"
  b_description :: "string option"
  b_category :: "string option"
  b_latitude :: jsval
  b_longitude :: jsval
  b_address :: "string option"

text \<open>
  \<^verbatim>\<open>queueClassificationJob\<close> pushes the job at the head of the list; when Redis
  fails the error is caught and the list is as before.
\<close>

definition queueClassificationJob :: "platform \<Rightarrow> oid \<Rightarrow> report \<Rightarrow> job list \<Rightarrow> job list" where
  "queueClassificationJob p rid r q =
     (if queue_open p
      then \<lparr>job_reportId = rid,
            job_description = description r,
            job_imageUrl = (if truthy_str (image_url r) then image_url r else None),
            job_title = title r\<rparr> # q
      else q)"

text \<open>
  \<^verbatim>\<open>createReport\<close>. \<open>img\<close> and \<open>voice\<close> are the URLs the two uploads gave
  (\<open>None\<close> when no file came or the upload failed, which the source only logs);
  \<open>new_id\<close> is the id the store gives the document. The fields not named in
  \<^verbatim>\<open>reportData\<close> get the schema's defaults. \<^verbatim>\<open>Report.create\<close> sits in
  a \<^verbatim>\<open>try\<close> whose \<^verbatim>\<open>catch\<close> answers 500: it fails when the store
  refuses the document or the id is taken.
\<close>

definition createReport ::
  "platform \<Rightarrow> create_body \<Rightarrow> string option \<Rightarrow> string option \<Rightarrow> oid \<Rightarrow> oid \<Rightarrow> db
     \<Rightarrow> (error + report) \<times> db" where
  "createReport p body img voice uid new_id d =
     (let latitude = b_latitude body; longitude = b_longitude body in
      if falsy latitude \<or> falsy longitude
      then (Inl (ValidationError MissingCoordinates), d)
      else if js_lt (to_number p latitude) (- 90) \<or> js_gt (to_number p latitude) 90 \<or>
              js_lt (to_number p longitude) (- 180) \<or> js_gt (to_number p longitude) 180
      then (Inl (ValidationError InvalidCoordinates), d)
      else
        let reportData =
          \<lparr>title = or_default (b_title body) ''Processing...'',
           description = or_default (b_description body) [],
           coordinates = [parseFloat p longitude, parseFloat p latitude],
           address = b_address body,
           image_url = img,
           voice_url = voice,
           department = or_default (b_category body) ''Processing'',
           reportStatus = SUBMITTED,
           severity = ''MEDIUM'',
           userId = uid,
           upvotes = 0,
           upvotedBy = [],
           mlClassified = False,
           mlSeverity = None,
           mlDepartment = None,
           mlTitle = None,
           mlConflicts = None,
           mlConfidence = None,
           isAcknowledged = False,
           acknowledgedAt = None,
           acknowledgedBy = None\<rparr>
        in if db_accepts p reportData \<and> map_of (reports d) new_id = None
           then (Inr reportData,
                 d\<lparr>reports := reports d @ [(new_id, reportData)],
                   ml_queue := (if ml_disabled p then ml_queue d
                                else queueClassificationJob p new_id reportData (ml_queue d))\<rparr>)
           else (Inl DatabaseError, d))"

section \<open>Lifecycle: acknowledge, resolve, delete\<close>

text \<open>The report-route handler \<^verbatim>\<open>acknowledgeReport\<close>.\<close>

definition acknowledgeReport :: "oid \<Rightarrow> db \<Rightarrow> (error + report) \<times> db" where
  "acknowledgeReport reportId d =
     (case findById d reportId of
        None \<Rightarrow> (Inl NotFound, d)
      | Some r \<Rightarrow>
          if reportStatus r \<noteq> SUBMITTED then (Inl InvalidTransition, d)
          else let r' = r\<lparr>reportStatus := ACKNOWLEDGED\<rparr>
               in (Inr r', save_report reportId r' d))"

text \<open>
  The admin-route handler \<^verbatim>\<open>updateReportAcknowledge\<close>: one
  \<^verbatim>\<open>findByIdAndUpdate\<close> with no test of the current status.
\<close>

definition updateReportAcknowledge :: "oid \<Rightarrow> nat \<Rightarrow> oid \<Rightarrow> db \<Rightarrow> (error + report) \<times> db" where
  "updateReportAcknowledge adminId now reportId d =
     (case findById d reportId of
        None \<Rightarrow> (Inl NotFound, d)
      | Some r \<Rightarrow>
          let r' = r\<lparr>isAcknowledged := True,
                     acknowledgedAt := Some now,
                     acknowledgedBy := Some adminId,
                     reportStatus := ACKNOWLEDGED\<rparr>
          in (Inr r', save_report reportId r' d))"

text \<open>The report-route handler \<^verbatim>\<open>resolveReport\<close> (user or admin).\<close>

definition resolveReport :: "oid \<Rightarrow> db \<Rightarrow> (error + report) \<times> db" where
  "resolveReport reportId d =
     (case findById d reportId of
        None \<Rightarrow> (Inl NotFound, d)
      | Some r \<Rightarrow>
          if reportStatus r \<notin> {SUBMITTED, ACKNOWLEDGED} then (Inl InvalidTransition, d)
          else let r' = r\<lparr>reportStatus := RESOLVED\<rparr>
               in (Inr r', save_report reportId r' d))"

text \<open>
  One award inside \<^verbatim>\<open>updateReportStatusResolve\<close>: \<^verbatim>\<open>User.findById\<close>, and
  when the user exists \<^verbatim>\<open>points += n; monthlyPoints += n; updateBadge(); save()\<close>.
\<close>

definition award_points :: "nat \<Rightarrow> oid \<Rightarrow> db \<Rightarrow> db" where
  "award_points n uid d =
     (case users d uid of
        None \<Rightarrow> d
      | Some u \<Rightarrow>
          save_user uid
            (snd (updateBadge (u\<lparr>points := points u + n, monthlyPoints := monthlyPoints u + n\<rparr>))) d)"

text \<open>The loop \<^verbatim>\<open>for (const upvoter of report.upvotedBy)\<close>.\<close>

fun award_upvoters :: "oid list \<Rightarrow> db \<Rightarrow> db" where
  "award_upvoters [] d = d"
| "award_upvoters (upvoter # rest) d = award_upvoters rest (award_points 5 upvoter d)"

text \<open>
  The owner-route handler \<^verbatim>\<open>updateReportStatusResolve\<close>; \<open>actor\<close> is
  \<^verbatim>\<open>req.user.userId\<close>. The report is loaded with its \<^verbatim>\<open>userId\<close>
  populated: when that user does not exist the populated field is null, the ownership
  test \<^verbatim>\<open>report.userId._id\<close> throws, and the outer \<^verbatim>\<open>catch\<close> answers 500.
\<close>

definition updateReportStatusResolve :: "oid \<Rightarrow> oid \<Rightarrow> db \<Rightarrow> (error + report) \<times> db" where
  "updateReportStatusResolve actor reportId d =
     (case findById d reportId of
        None \<Rightarrow> (Inl NotFound, d)
      | Some r \<Rightarrow>
          (case users d (userId r) of
             None \<Rightarrow> (Inl ServerError, d)
           | Some submitter \<Rightarrow>
               if userId r \<noteq> actor then (Inl Forbidden, d)
               else if reportStatus r \<noteq> ACKNOWLEDGED then (Inl InvalidTransition, d)
               else
                 let oldStatus = reportStatus r;
                     r' = r\<lparr>reportStatus := RESOLVED\<rparr>;
                     d1 = save_report reportId r' d;
                     d2 = (if oldStatus \<noteq> RESOLVED
                           then award_upvoters (populate_upvotedBy d (upvotedBy r))
                                  (award_points 20 (userId r) d1)
                           else d1)
                 in (Inr r', d2)))"

text \<open>The admin handler \<^verbatim>\<open>deleteReport\<close>.\<close>

definition deleteReport :: "oid \<Rightarrow> db \<Rightarrow> (error + unit) \<times> db" where
  "deleteReport reportId d =
     (case findById d reportId of
        None \<Rightarrow> (Inl NotFound, d)
      | Some r \<Rightarrow> (Inr (), save_report reportId (r\<lparr>reportStatus := DELETED\<rparr>) d))"

section \<open>Classification webhook: \<^verbatim>\<open>mlWebhook\<close>\<close>

record classification =
  cls_severity :: string
  cls_department :: string
  cls_title :: "string option"
  cls_conflicts :: "string option"
  cls_confidence :: "jsnum \<times> jsnum"

record webhook_body =
  wh_reportId :: oid
  wh_classification :: "classification option"

text \<open>The \<^verbatim>\<open>$set\<close> of \<^verbatim>\<open>updateData\<close>, applied to a stored report.\<close>

definition updateData :: "classification \<Rightarrow> report \<Rightarrow> report" where
  "updateData c r =
     (let r1 = r\<lparr>mlClassified := True,
                  mlSeverity := Some (cls_severity c),
                  mlDepartment := Some (cls_department c),
                  mlConfidence := Some (cls_confidence c),
                  department := cls_department c,
                  severity := cls_severity c\<rparr>;
          r2 = (if truthy_str (cls_title c) \<and> cls_title c \<noteq> Some ''No title''
                then r1\<lparr>title := the (cls_title c), mlTitle := cls_title c\<rparr>
                else r1);
          r3 = (if truthy_str (cls_conflicts c)
                then r2\<lparr>mlConflicts := cls_conflicts c\<rparr>
                else r2)
      in r3)"

text \<open>
  \<^verbatim>\<open>mlWebhook\<close>. A body without \<^verbatim>\<open>classification\<close> makes
  \<^verbatim>\<open>classification.severity\<close> throw, which the \<^verbatim>\<open>catch\<close> answers with 500.
  \<^verbatim>\<open>findByIdAndUpdate\<close> gives the updated document, or null when no document has
  the id; the handler answers 200 with whichever it got.
\<close>

definition mlWebhook :: "webhook_body \<Rightarrow> db \<Rightarrow> (error + report option) \<times> db" where
  "mlWebhook body d =
     (case wh_classification body of
        None \<Rightarrow> (Inl ServerError, d)
      | Some c \<Rightarrow>
          (case findById d (wh_reportId body) of
             None \<Rightarrow> (Inr None, d)
           | Some r \<Rightarrow>
               let updatedReportFromDB = updateData c r
               in (Inr (Some updatedReportFromDB),
                   save_report (wh_reportId body) updatedReportFromDB d)))"

section \<open>Upvote toggle: \<^verbatim>\<open>upvoteReport\<close>\<close>

definition upvoteReport :: "oid \<Rightarrow> string \<Rightarrow> db \<Rightarrow> (error + int) \<times> db" where
  "upvoteReport actor reportId d =
     (if \<not> valid_oid reportId then (Inl (ValidationError InvalidIdFormat), d)
      else
        (case findById d reportId of
           None \<Rightarrow> (Inl NotFound, d)
         | Some r \<Rightarrow>
             if reportStatus r = DELETED then (Inl InvalidState, d)
             else if actor \<in> set (upvotedBy r)
             then
               let r' = r\<lparr>upvotes := upvotes r - 1,
                          upvotedBy := filter (\<lambda>i. i \<noteq> actor) (upvotedBy r)\<rparr>
               in (Inr (upvotes r'), save_report reportId r' d)
             else
               let r' = r\<lparr>upvotes := upvotes r + 1,
                          upvotedBy := upvotedBy r @ [actor]\<rparr>
               in (Inr (upvotes r'), save_report reportId r' d)))"

section \<open>Listing queries\<close>

text \<open>
  A listing is given as the stored documents that match its filter, in store order; the
  sort by creation time, the pagination and the population of \<^verbatim>\<open>userId\<close> only
  reorder, cut or decorate that list and are left out.
\<close>

definition find_reports :: "(report \<Rightarrow> bool) \<Rightarrow> db \<Rightarrow> (oid \<times> report) list" where
  "find_reports flt d = filter (\<lambda>(i, r). flt r) (reports d)"

text \<open>\<^verbatim>\<open>getUserReports\<close>: \<^verbatim>\<open>{ userId, reportStatus: { $ne: 'DELETED' } }\<close>.\<close>

definition getUserReports :: "oid \<Rightarrow> db \<Rightarrow> (oid \<times> report) list" where
  "getUserReports uid d = find_reports (\<lambda>r. userId r = uid \<and> reportStatus r \<noteq> DELETED) d"

fun status_name :: "status \<Rightarrow> string" where
  "status_name SUBMITTED = ''SUBMITTED''"
| "status_name ACKNOWLEDGED = ''ACKNOWLEDGED''"
| "status_name RESOLVED = ''RESOLVED''"
| "status_name DELETED = ''DELETED''"

text \<open>
  \<^verbatim>\<open>getAllReports\<close> of the report controller: the filter starts as
  \<^verbatim>\<open>{ reportStatus: { $ne: 'DELETED' } }\<close>; a \<^verbatim>\<open>status\<close> query parameter
  replaces that condition, a \<^verbatim>\<open>department\<close> parameter adds one.
\<close>

definition getAllReports :: "string option \<Rightarrow> string option \<Rightarrow> db \<Rightarrow> (oid \<times> report) list" where
  "getAllReports q_status q_department d =
     find_reports
       (\<lambda>r. (if truthy_str q_status then Some (status_name (reportStatus r)) = q_status
             else reportStatus r \<noteq> DELETED) \<and>
            (if truthy_str q_department then Some (department r) = q_department else True)) d"

text \<open>\<^verbatim>\<open>getAllReports\<close> of the admin controller: \<^verbatim>\<open>Report.find()\<close>, no filter.\<close>

definition adminGetAllReports :: "db \<Rightarrow> (oid \<times> report) list" where
  "adminGetAllReports d = find_reports (\<lambda>r. True) d"

section \<open>Example data\<close>

text \<open>
  A small store for the concrete evaluations below: one report, owned by
  \<open>ex_owner\<close> and upvoted once by \<open>ex_voter\<close>, in a status given as parameter,
  and the two users with no points yet.
\<close>

definition ex_rid :: oid where
  "ex_rid = ''64f1a2b3c4d5e6f708192a3b''"

definition ex_other_rid :: oid where
  "ex_other_rid = ''64f1a2b3c4d5e6f708192a3c''"

definition ex_owner :: oid where
  "ex_owner = ''64f1a2b3c4d5e6f708192a01''"

definition ex_voter :: oid where
  "ex_voter = ''64f1a2b3c4d5e6f708192a02''"

definition ex_admin :: oid where
  "ex_admin = ''64f1a2b3c4d5e6f708192a0a''"

definition ex_user :: user where
  "ex_user = \<lparr>points = 0, monthlyPoints = 0, lastMonthlyReset = 0, badge = Bronze\<rparr>"

definition ex_report :: "status \<Rightarrow> report" where
  "ex_report s =
     \<lparr>title = ''Pothole'',
      description = ''Deep pothole near the bus stop'',
      coordinates = [Fin (7759 / 100), Fin (1297 / 100)],
      address = None,
      image_url = None,
      voice_url = None,
      department = ''Processing'',
      reportStatus = s,
      severity = ''MEDIUM'',
      userId = ex_owner,
      upvotes = 1,
      upvotedBy = [ex_voter],
      mlClassified = False,
      mlSeverity = None,
      mlDepartment = None,
      mlTitle = None,
      mlConflicts = None,
      mlConfidence = None,
      isAcknowledged = False,
      acknowledgedAt = None,
      acknowledgedBy = None\<rparr>"

definition ex_db :: "status \<Rightarrow> db" where
  "ex_db s =
     \<lparr>reports = [(ex_rid, ex_report s)],
      users = [ex_owner \<mapsto> ex_user, ex_voter \<mapsto> ex_user],
      ml_queue = []\<rparr>"

definition ex_platform :: platform where
  "ex_platform =
     \<lparr>str_to_number = (\<lambda>s. NaN),
      str_parse_float = (\<lambda>s. NaN),
      db_accepts = (\<lambda>r. True),
      ml_disabled = False,
      queue_open = True\<rparr>"

text \<open>
  The same platform for a multipart form, whose fields arrive as strings: the two strings
  the form example uses read as the numbers they spell.
\<close>

definition ex_form_platform :: platform where
  "ex_form_platform =
     \<lparr>str_to_number =
        (\<lambda>s. if s = ''0'' then Fin 0 else if s = ''77.59'' then Fin (7759 / 100) else NaN),
      str_parse_float =
        (\<lambda>s. if s = ''0'' then Fin 0 else if s = ''77.59'' then Fin (7759 / 100) else NaN),
      db_accepts = (\<lambda>r. True),
      ml_disabled = False,
      queue_open = True\<rparr>"

definition ex_body :: "jsval \<Rightarrow> jsval \<Rightarrow> create_body" where
  "ex_body lat lng =
     \<lparr>b_title = None,
      b_description = Some ''Deep pothole near the bus stop'',
      b_category = None,
      b_latitude = lat,
      b_longitude = lng,
      b_address = None\<rparr>"

definition ex_classification :: classification where
  "ex_classification =
     \<lparr>cls_severity = ''HIGH'',
      cls_department = ''Roads'',
      cls_title = Some ''Pothole on main road'',
      cls_conflicts = None,
      cls_confidence = (Fin (9 / 10), Fin (8 / 10))\<rparr>"

definition ex_webhook :: "oid \<Rightarrow> webhook_body" where
  "ex_webhook rid = \<lparr>wh_reportId = rid, wh_classification = Some ex_classification\<rparr>"

section \<open>Reputation ledger\<close>

lemma updateBadge_fields:
  "points (snd (updateBadge u)) = points u"
  "monthlyPoints (snd (updateBadge u)) = monthlyPoints u"
  "lastMonthlyReset (snd (updateBadge u)) = lastMonthlyReset u"
  by (simp_all add: updateBadge_def Let_def)

lemma updateBadge_badge:
  "badge (snd (updateBadge u)) =
     (if points u \<ge> 1000 then Platinum
      else if points u \<ge> 500 then Gold
      else if points u \<ge> 200 then Silver
      else Bronze)"
  by (simp add: updateBadge_def Let_def)

lemma addPoints_fields:
  "points (addPoints n u) = points u + n"
  "monthlyPoints (addPoints n u) = monthlyPoints u + n"
  "lastMonthlyReset (addPoints n u) = lastMonthlyReset u"
  "badge (addPoints n u) =
     (if points u + n \<ge> 1000 then Platinum
      else if points u + n \<ge> 500 then Gold
      else if points u + n \<ge> 200 then Silver
      else Bronze)"
  by (simp_all add: addPoints_def updateBadge_fields updateBadge_badge)

lemma addPoints_more: "user.more (addPoints n u) = user.more u"
  by (simp add: addPoints_def updateBadge_def Let_def)

lemma addPoints_addPoints: "addPoints m (addPoints n u) = addPoints (n + m) u"
  by (rule user.equality) (simp_all add: addPoints_fields addPoints_more add.assoc)

text \<open>
  Claim C7. \<^verbatim>\<open>addPoints(n)\<close> adds n to both \<^verbatim>\<open>points\<close> and
  \<^verbatim>\<open>monthlyPoints\<close>, changes no other reputation field, and leaves the badge at the
  highest threshold the new points reach (1000 Platinum, 500 Gold, 200 Silver, otherwise
  Bronze). A user whose points are 0, 199, 200, 499, 500, 999, 1000 is given the badges
  Bronze, Bronze, Silver, Silver, Gold, Gold, Platinum by the recomputation, whatever the
  badge was before.
\<close>

theorem addPoints_badge_thresholds:
  "points (addPoints n u) = points u + n \<and>
   monthlyPoints (addPoints n u) = monthlyPoints u + n \<and>
   lastMonthlyReset (addPoints n u) = lastMonthlyReset u \<and>
   badge (addPoints n u) =
     (if points u + n \<ge> 1000 then Platinum
      else if points u + n \<ge> 500 then Gold
      else if points u + n \<ge> 200 then Silver
      else Bronze) \<and>
   map (\<lambda>p. badge (snd (updateBadge (u\<lparr>points := p\<rparr>)))) [0, 199, 200, 499, 500, 999, 1000]
     = [Bronze, Bronze, Silver, Silver, Gold, Gold, Platinum] \<and>
   map (\<lambda>p. badge (addPoints p (u\<lparr>points := 0\<rparr>))) [0, 199, 200, 499, 500, 999, 1000]
     = [Bronze, Bronze, Silver, Silver, Gold, Gold, Platinum]"
  by (simp add: addPoints_def updateBadge_fields updateBadge_badge)

section \<open>Store lemmas\<close>

lemma findById_save_report:
  "findById (save_report rid r d) rid' = (if rid' = rid then Some r else findById d rid')"
  by (simp add: findById_def save_report_def update_conv')

lemma users_save_report: "users (save_report rid r d) = users d"
  by (simp add: save_report_def)

lemma ml_queue_save_report: "ml_queue (save_report rid r d) = ml_queue d"
  by (simp add: save_report_def)

lemma save_report_twice:
  "save_report rid r (save_report rid r d) = save_report rid r d"
proof -
  have "map_of (AList.update rid r (reports d)) rid = Some r"
    by (simp add: update_conv')
  then have "AList.update rid r (AList.update rid r (reports d)) = AList.update rid r (reports d)"
    by (rule update_triv)
  then show ?thesis by (simp add: save_report_def)
qed

lemma ex_valid: "valid_oid ex_rid" "valid_oid ex_other_rid"
  by (simp_all add: valid_oid_def is_hex_def ex_rid_def ex_other_rid_def)

lemma ex_ids_distinct:
  "ex_rid \<noteq> ex_other_rid" "ex_other_rid \<noteq> ex_rid"
  "ex_owner \<noteq> ex_voter" "ex_voter \<noteq> ex_owner"
  by (simp_all add: ex_rid_def ex_other_rid_def ex_owner_def ex_voter_def)

lemma ex_findById: "findById (ex_db s) ex_rid = Some (ex_report s)"
  "findById (ex_db s) ex_other_rid = None"
  by (simp_all add: findById_def ex_db_def ex_ids_distinct)

lemma ex_users: "users (ex_db s) ex_owner = Some ex_user" "users (ex_db s) ex_voter = Some ex_user"
  by (simp_all add: ex_db_def ex_ids_distinct)

lemma ex_report_fields:
  "reportStatus (ex_report s) = s"
  "userId (ex_report s) = ex_owner"
  "upvotedBy (ex_report s) = [ex_voter]"
  "upvotes (ex_report s) = 1"
  "acknowledgedAt (ex_report s) = None"
  "acknowledgedBy (ex_report s) = None"
  "isAcknowledged (ex_report s) = False"
  by (simp_all add: ex_report_def)

lemma ex_user_fields:
  "points ex_user = 0" "monthlyPoints ex_user = 0" "badge ex_user = Bronze"
  by (simp_all add: ex_user_def)

section \<open>Webhook reconciler\<close>

lemma updateData_twice: "updateData c (updateData c r) = updateData c r"
  by (simp add: updateData_def Let_def)

lemma updateData_frame:
  "reportStatus (updateData c r) = reportStatus r"
  "upvotes (updateData c r) = upvotes r"
  "upvotedBy (updateData c r) = upvotedBy r"
  "userId (updateData c r) = userId r"
  by (simp_all add: updateData_def Let_def)

lemma updateData_fields:
  "mlSeverity (updateData c r) = Some (cls_severity c)"
  "mlDepartment (updateData c r) = Some (cls_department c)"
  "department (updateData c r) = cls_department c"
  "severity (updateData c r) = cls_severity c"
  "mlClassified (updateData c r)"
  by (simp_all add: updateData_def Let_def)

lemma updateData_title:
  "title (updateData c r) =
     (case cls_title c of None \<Rightarrow> title r
      | Some t \<Rightarrow> if t \<noteq> [] \<and> t \<noteq> ''No title'' then t else title r)"
  "mlTitle (updateData c r) =
     (case cls_title c of None \<Rightarrow> mlTitle r
      | Some t \<Rightarrow> if t \<noteq> [] \<and> t \<noteq> ''No title'' then Some t else mlTitle r)"
  by (auto simp add: updateData_def Let_def split: option.splits)

lemma mlWebhook_twice: "mlWebhook body (snd (mlWebhook body d)) = mlWebhook body d"
  by (simp add: mlWebhook_def Let_def findById_save_report updateData_twice save_report_twice
      split: option.splits)

lemma mlWebhook_users: "users (snd (mlWebhook body d)) = users d"
  by (simp add: mlWebhook_def Let_def users_save_report split: option.splits)

lemma mlWebhook_queue: "ml_queue (snd (mlWebhook body d)) = ml_queue d"
  by (simp add: mlWebhook_def Let_def ml_queue_save_report split: option.splits)

lemma mlWebhook_frame:
  "map_option reportStatus (findById (snd (mlWebhook body d)) rid) = map_option reportStatus (findById d rid)"
  "map_option upvotes (findById (snd (mlWebhook body d)) rid) = map_option upvotes (findById d rid)"
  "map_option upvotedBy (findById (snd (mlWebhook body d)) rid) = map_option upvotedBy (findById d rid)"
  by (auto simp add: mlWebhook_def Let_def findById_save_report updateData_frame split: option.splits)

lemma mlWebhook_found:
  "wh_classification body = Some c \<Longrightarrow> findById d (wh_reportId body) = Some r \<Longrightarrow>
   mlWebhook body d = (Inr (Some (updateData c r)), save_report (wh_reportId body) (updateData c r) d)"
  by (simp add: mlWebhook_def Let_def)

lemma mlWebhook_absent:
  "wh_classification body = Some c \<Longrightarrow> findById d (wh_reportId body) = None \<Longrightarrow>
   mlWebhook body d = (Inr None, d)"
  by (simp add: mlWebhook_def)

lemma mlWebhook_never_NotFound: "fst (mlWebhook body d) \<noteq> Inl NotFound"
  by (simp add: mlWebhook_def Let_def split: option.splits)

text \<open>
  Claim C5. The reconciler \<^verbatim>\<open>mlWebhook\<close> is idempotent: applied a second time
  with the same body it gives the same response and the same store as the first time (so
  \<^verbatim>\<open>mlSeverity\<close>, \<^verbatim>\<open>mlDepartment\<close>, \<^verbatim>\<open>department\<close> and
  \<^verbatim>\<open>severity\<close> are as after the first application). No application changes any
  user, the job queue, or the \<^verbatim>\<open>reportStatus\<close>, \<^verbatim>\<open>upvotes\<close> or
  \<^verbatim>\<open>upvotedBy\<close> of any report. For an existing report the four classification
  fields take the classifier's values, and the classifier's title goes into
  \<^verbatim>\<open>title\<close> and \<^verbatim>\<open>mlTitle\<close> only when it is present, non-empty and not
  \<^verbatim>\<open>'No title'\<close>; otherwise both stay as they were.
\<close>

theorem mlWebhook_idempotent_confined:
  "mlWebhook body (snd (mlWebhook body d)) = mlWebhook body d \<and>
   users (snd (mlWebhook body d)) = users d \<and>
   ml_queue (snd (mlWebhook body d)) = ml_queue d \<and>
   (\<forall>rid. map_option reportStatus (findById (snd (mlWebhook body d)) rid)
            = map_option reportStatus (findById d rid) \<and>
          map_option upvotes (findById (snd (mlWebhook body d)) rid)
            = map_option upvotes (findById d rid) \<and>
          map_option upvotedBy (findById (snd (mlWebhook body d)) rid)
            = map_option upvotedBy (findById d rid)) \<and>
   (wh_classification body = Some c \<and> findById d (wh_reportId body) = Some r \<longrightarrow>
      (\<exists>r'. mlWebhook body d = (Inr (Some r'), save_report (wh_reportId body) r' d) \<and>
            findById (snd (mlWebhook body d)) (wh_reportId body) = Some r' \<and>
            mlSeverity r' = Some (cls_severity c) \<and>
            mlDepartment r' = Some (cls_department c) \<and>
            department r' = cls_department c \<and>
            severity r' = cls_severity c \<and>
            title r' =
              (case cls_title c of
                 None \<Rightarrow> title r
               | Some t \<Rightarrow> if t \<noteq> [] \<and> t \<noteq> ''No title'' then t else title r) \<and>
            mlTitle r' =
              (case cls_title c of
                 None \<Rightarrow> mlTitle r
               | Some t \<Rightarrow> if t \<noteq> [] \<and> t \<noteq> ''No title'' then Some t else mlTitle r)))"
proof (intro conjI allI impI)
  show "mlWebhook body (snd (mlWebhook body d)) = mlWebhook body d"
    by (rule mlWebhook_twice)
  show "users (snd (mlWebhook body d)) = users d"
    by (rule mlWebhook_users)
  show "ml_queue (snd (mlWebhook body d)) = ml_queue d"
    by (rule mlWebhook_queue)
  show "\<And>rid. map_option reportStatus (findById (snd (mlWebhook body d)) rid)
            = map_option reportStatus (findById d rid)"
    by (rule mlWebhook_frame)
  show "\<And>rid. map_option upvotes (findById (snd (mlWebhook body d)) rid)
            = map_option upvotes (findById d rid)"
    by (rule mlWebhook_frame)
  show "\<And>rid. map_option upvotedBy (findById (snd (mlWebhook body d)) rid)
            = map_option upvotedBy (findById d rid)"
    by (rule mlWebhook_frame)
next
  assume a: "wh_classification body = Some c \<and> findById d (wh_reportId body) = Some r"
  then have m: "mlWebhook body d =
      (Inr (Some (updateData c r)), save_report (wh_reportId body) (updateData c r) d)"
    by (simp add: mlWebhook_found)
  show "\<exists>r'. mlWebhook body d = (Inr (Some r'), save_report (wh_reportId body) r' d) \<and>
            findById (snd (mlWebhook body d)) (wh_reportId body) = Some r' \<and>
            mlSeverity r' = Some (cls_severity c) \<and>
            mlDepartment r' = Some (cls_department c) \<and>
            department r' = cls_department c \<and>
            severity r' = cls_severity c \<and>
            title r' =
              (case cls_title c of
                 None \<Rightarrow> title r
               | Some t \<Rightarrow> if t \<noteq> [] \<and> t \<noteq> ''No title'' then t else title r) \<and>
            mlTitle r' =
              (case cls_title c of
                 None \<Rightarrow> mlTitle r
               | Some t \<Rightarrow> if t \<noteq> [] \<and> t \<noteq> ''No title'' then Some t else mlTitle r)"
    by (rule exI [of _ "updateData c r"])
       (simp add: m findById_save_report updateData_fields updateData_title)
qed

text \<open>
  The theorem at the example store: the classifier's HIGH / Roads result with a title, for
  the stored report.
\<close>

theorem mlWebhook_idempotent_confined_witness:
  "wh_classification (ex_webhook ex_rid) = Some ex_classification \<and>
   findById (ex_db SUBMITTED) (wh_reportId (ex_webhook ex_rid)) = Some (ex_report SUBMITTED) \<and>
   mlWebhook (ex_webhook ex_rid) (snd (mlWebhook (ex_webhook ex_rid) (ex_db SUBMITTED)))
     = mlWebhook (ex_webhook ex_rid) (ex_db SUBMITTED) \<and>
   users (snd (mlWebhook (ex_webhook ex_rid) (ex_db SUBMITTED))) = users (ex_db SUBMITTED) \<and>
   map_option reportStatus (findById (snd (mlWebhook (ex_webhook ex_rid) (ex_db SUBMITTED))) ex_rid)
     = Some SUBMITTED \<and>
   (\<exists>r'. findById (snd (mlWebhook (ex_webhook ex_rid) (ex_db SUBMITTED))) ex_rid = Some r' \<and>
         mlSeverity r' = Some ''HIGH'' \<and> mlDepartment r' = Some ''Roads'' \<and>
         department r' = ''Roads'' \<and> severity r' = ''HIGH'' \<and>
         title r' = ''Pothole on main road'' \<and> mlTitle r' = Some ''Pothole on main road'')"
proof -
  have h: "wh_classification (ex_webhook ex_rid) = Some ex_classification \<and>
           findById (ex_db SUBMITTED) (wh_reportId (ex_webhook ex_rid)) = Some (ex_report SUBMITTED)"
    by (simp add: ex_webhook_def ex_findById)
  have rid: "wh_reportId (ex_webhook ex_rid) = ex_rid"
    by (simp add: ex_webhook_def)
  have st: "reportStatus (ex_report SUBMITTED) = SUBMITTED"
    by (simp add: ex_report_def)
  have cls: "cls_severity ex_classification = ''HIGH''" "cls_department ex_classification = ''Roads''"
    "cls_title ex_classification = Some ''Pothole on main road''"
    by (simp_all add: ex_classification_def)
  note t = mlWebhook_idempotent_confined
    [of "ex_webhook ex_rid" "ex_db SUBMITTED" ex_classification "ex_report SUBMITTED"]
  from t have idem: "mlWebhook (ex_webhook ex_rid) (snd (mlWebhook (ex_webhook ex_rid) (ex_db SUBMITTED)))
     = mlWebhook (ex_webhook ex_rid) (ex_db SUBMITTED)"
    and us: "users (snd (mlWebhook (ex_webhook ex_rid) (ex_db SUBMITTED))) = users (ex_db SUBMITTED)"
    by blast+
  from t have "map_option reportStatus (findById (snd (mlWebhook (ex_webhook ex_rid) (ex_db SUBMITTED))) ex_rid)
     = map_option reportStatus (findById (ex_db SUBMITTED) ex_rid)"
    by blast
  then have stat: "map_option reportStatus (findById (snd (mlWebhook (ex_webhook ex_rid) (ex_db SUBMITTED))) ex_rid)
     = Some SUBMITTED"
    by (simp add: ex_findById st)
  from t h obtain r' where
    "findById (snd (mlWebhook (ex_webhook ex_rid) (ex_db SUBMITTED))) (wh_reportId (ex_webhook ex_rid)) = Some r'"
    "mlSeverity r' = Some (cls_severity ex_classification)"
    "mlDepartment r' = Some (cls_department ex_classification)"
    "department r' = cls_department ex_classification"
    "severity r' = cls_severity ex_classification"
    "title r' = (case cls_title ex_classification of None \<Rightarrow> title (ex_report SUBMITTED)
               | Some t \<Rightarrow> if t \<noteq> [] \<and> t \<noteq> ''No title'' then t else title (ex_report SUBMITTED))"
    "mlTitle r' = (case cls_title ex_classification of None \<Rightarrow> mlTitle (ex_report SUBMITTED)
               | Some t \<Rightarrow> if t \<noteq> [] \<and> t \<noteq> ''No title'' then Some t else mlTitle (ex_report SUBMITTED))"
    by blast
  then have ex: "\<exists>r'. findById (snd (mlWebhook (ex_webhook ex_rid) (ex_db SUBMITTED))) ex_rid = Some r' \<and>
         mlSeverity r' = Some ''HIGH'' \<and> mlDepartment r' = Some ''Roads'' \<and>
         department r' = ''Roads'' \<and> severity r' = ''HIGH'' \<and>
         title r' = ''Pothole on main road'' \<and> mlTitle r' = Some ''Pothole on main road''"
    by (simp add: rid cls)
  show ?thesis using h idem us stat ex by blast
qed

text \<open>
  Claim C4, evaluated on a classification payload for an id that no stored report has:
  \<^verbatim>\<open>mlWebhook\<close> answers with success and a null report (not with NotFound), and
  the store is unchanged.
\<close>

theorem mlWebhook_unknown_report_answers_success:
  "findById (ex_db SUBMITTED) ex_other_rid = None \<and>
   wh_reportId (ex_webhook ex_other_rid) = ex_other_rid \<and>
   wh_classification (ex_webhook ex_other_rid) = Some ex_classification \<and>
   mlWebhook (ex_webhook ex_other_rid) (ex_db SUBMITTED) = (Inr None, ex_db SUBMITTED)"
  by (simp add: mlWebhook_def ex_webhook_def ex_findById)

section \<open>Upvote coordinator\<close>

text \<open>
  Claim C6, as amended. For a report id of 24 hexadecimal digits, an existing report that
  is not DELETED and any user, two calls of \<^verbatim>\<open>upvoteReport\<close> in a row both
  succeed, each returns the \<^verbatim>\<open>upvotes\<close> it stored, the first call adds or
  removes the user, and after the second call \<^verbatim>\<open>upvotes\<close> has its original
  value, \<^verbatim>\<open>upvotedBy\<close> has its original members and every other field of the
  report, every other report, the users and the queue are as before. The removal branch
  subtracts exactly 1 and has no floor; the count stays non-negative when
  \<^verbatim>\<open>upvotes\<close> is the number of entries of \<^verbatim>\<open>upvotedBy\<close>. The call
  fails with the id-format validation error for an id that is not 24 hexadecimal digits,
  with NotFound for a well-formed id of no report and with InvalidState for a DELETED
  report, and leaves the store unchanged in all three cases.
\<close>

theorem upvoteReport_toggle_twice:
  "(\<not> valid_oid rid \<longrightarrow> upvoteReport u rid d = (Inl (ValidationError InvalidIdFormat), d)) \<and>
   (valid_oid rid \<and> findById d rid = None \<longrightarrow> upvoteReport u rid d = (Inl NotFound, d)) \<and>
   (valid_oid rid \<and> findById d rid = Some r \<and> reportStatus r = DELETED \<longrightarrow>
      upvoteReport u rid d = (Inl InvalidState, d)) \<and>
   (valid_oid rid \<and> findById d rid = Some r \<and> reportStatus r \<noteq> DELETED \<longrightarrow>
      (\<exists>r1 r2 d1 d2.
         upvoteReport u rid d = (Inr (upvotes r1), d1) \<and> findById d1 rid = Some r1 \<and>
         upvoteReport u rid d1 = (Inr (upvotes r2), d2) \<and> findById d2 rid = Some r2 \<and>
         upvotes r1 = (if u \<in> set (upvotedBy r) then upvotes r - 1 else upvotes r + 1) \<and>
         (u \<in> set (upvotedBy r1)) = (u \<notin> set (upvotedBy r)) \<and>
         upvotes r2 = upvotes r \<and>
         set (upvotedBy r2) = set (upvotedBy r) \<and>
         r2 = r\<lparr>upvotedBy := upvotedBy r2\<rparr> \<and>
         users d2 = users d \<and> ml_queue d2 = ml_queue d \<and>
         (\<forall>rid'. rid' \<noteq> rid \<longrightarrow> findById d2 rid' = findById d rid') \<and>
         (upvotes r = int (length (upvotedBy r)) \<longrightarrow> 0 \<le> upvotes r1 \<and> 0 \<le> upvotes r2)))"
proof (intro conjI impI)
  assume "\<not> valid_oid rid"
  then show "upvoteReport u rid d = (Inl (ValidationError InvalidIdFormat), d)"
    by (simp add: upvoteReport_def)
next
  assume "valid_oid rid \<and> findById d rid = None"
  then show "upvoteReport u rid d = (Inl NotFound, d)"
    by (simp add: upvoteReport_def)
next
  assume "valid_oid rid \<and> findById d rid = Some r \<and> reportStatus r = DELETED"
  then show "upvoteReport u rid d = (Inl InvalidState, d)"
    by (simp add: upvoteReport_def)
next
  assume a: "valid_oid rid \<and> findById d rid = Some r \<and> reportStatus r \<noteq> DELETED"
  show "\<exists>r1 r2 d1 d2.
         upvoteReport u rid d = (Inr (upvotes r1), d1) \<and> findById d1 rid = Some r1 \<and>
         upvoteReport u rid d1 = (Inr (upvotes r2), d2) \<and> findById d2 rid = Some r2 \<and>
         upvotes r1 = (if u \<in> set (upvotedBy r) then upvotes r - 1 else upvotes r + 1) \<and>
         (u \<in> set (upvotedBy r1)) = (u \<notin> set (upvotedBy r)) \<and>
         upvotes r2 = upvotes r \<and>
         set (upvotedBy r2) = set (upvotedBy r) \<and>
         r2 = r\<lparr>upvotedBy := upvotedBy r2\<rparr> \<and>
         users d2 = users d \<and> ml_queue d2 = ml_queue d \<and>
         (\<forall>rid'. rid' \<noteq> rid \<longrightarrow> findById d2 rid' = findById d rid') \<and>
         (upvotes r = int (length (upvotedBy r)) \<longrightarrow> 0 \<le> upvotes r1 \<and> 0 \<le> upvotes r2)"
  proof (cases "u \<in> set (upvotedBy r)")
    case True
    define r1 where "r1 = r\<lparr>upvotes := upvotes r - 1, upvotedBy := filter (\<lambda>i. i \<noteq> u) (upvotedBy r)\<rparr>"
    define d1 where "d1 = save_report rid r1 d"
    define r2 where "r2 = r1\<lparr>upvotes := upvotes r1 + 1, upvotedBy := upvotedBy r1 @ [u]\<rparr>"
    define d2 where "d2 = save_report rid r2 d1"
    have s1: "upvoteReport u rid d = (Inr (upvotes r1), d1)"
      using a True by (simp add: upvoteReport_def Let_def r1_def d1_def)
    have f1: "findById d1 rid = Some r1"
      by (simp add: d1_def findById_save_report)
    have st1: "reportStatus r1 \<noteq> DELETED" "u \<notin> set (upvotedBy r1)"
      using a by (simp_all add: r1_def)
    have s2: "upvoteReport u rid d1 = (Inr (upvotes r2), d2)"
      using a f1 st1 by (simp add: upvoteReport_def Let_def r2_def d2_def)
    have f2: "findById d2 rid = Some r2"
      by (simp add: d2_def findById_save_report)
    have len: "1 \<le> length (upvotedBy r)"
      using True by (cases "upvotedBy r") auto
    have set2: "set (upvotedBy r2) = set (upvotedBy r)"
      using True by (auto simp add: r2_def r1_def)
    have rest: "r2 = r\<lparr>upvotedBy := upvotedBy r2\<rparr>"
      by (simp add: r2_def r1_def)
    have other: "\<forall>rid'. rid' \<noteq> rid \<longrightarrow> findById d2 rid' = findById d rid'"
      by (simp add: d2_def d1_def findById_save_report)
    have frame: "users d2 = users d" "ml_queue d2 = ml_queue d"
      by (simp_all add: d2_def d1_def users_save_report ml_queue_save_report)
    have up: "upvotes r1 = upvotes r - 1" "upvotes r2 = upvotes r"
      by (simp_all add: r2_def r1_def)
    show ?thesis
      using s1 f1 s2 f2 st1 True set2 rest other frame up len
      by (intro exI[of _ r1] exI[of _ r2] exI[of _ d1] exI[of _ d2]) auto
  next
    case False
    define r1 where "r1 = r\<lparr>upvotes := upvotes r + 1, upvotedBy := upvotedBy r @ [u]\<rparr>"
    define d1 where "d1 = save_report rid r1 d"
    define r2 where "r2 = r1\<lparr>upvotes := upvotes r1 - 1, upvotedBy := filter (\<lambda>i. i \<noteq> u) (upvotedBy r1)\<rparr>"
    define d2 where "d2 = save_report rid r2 d1"
    have s1: "upvoteReport u rid d = (Inr (upvotes r1), d1)"
      using a False by (simp add: upvoteReport_def Let_def r1_def d1_def)
    have f1: "findById d1 rid = Some r1"
      by (simp add: d1_def findById_save_report)
    have st1: "reportStatus r1 \<noteq> DELETED" "u \<in> set (upvotedBy r1)"
      using a by (simp_all add: r1_def)
    have s2: "upvoteReport u rid d1 = (Inr (upvotes r2), d2)"
      using a f1 st1 by (simp add: upvoteReport_def Let_def r2_def d2_def)
    have f2: "findById d2 rid = Some r2"
      by (simp add: d2_def findById_save_report)
    have flt: "filter (\<lambda>i. i \<noteq> u) (upvotedBy r) = upvotedBy r"
      using False by (auto simp add: filter_id_conv)
    have set2: "set (upvotedBy r2) = set (upvotedBy r)"
      using flt by (simp add: r2_def r1_def)
    have rest: "r2 = r\<lparr>upvotedBy := upvotedBy r2\<rparr>"
      by (simp add: r2_def r1_def)
    have other: "\<forall>rid'. rid' \<noteq> rid \<longrightarrow> findById d2 rid' = findById d rid'"
      by (simp add: d2_def d1_def findById_save_report)
    have frame: "users d2 = users d" "ml_queue d2 = ml_queue d"
      by (simp_all add: d2_def d1_def users_save_report ml_queue_save_report)
    have up: "upvotes r1 = upvotes r + 1" "upvotes r2 = upvotes r"
      by (simp_all add: r2_def r1_def)
    show ?thesis
      using s1 f1 s2 f2 st1 False set2 rest other frame up
      by (intro exI[of _ r1] exI[of _ r2] exI[of _ d1] exI[of _ d2]) auto
  qed
qed

text \<open>
  The theorem at the example store: the voter of the stored report toggles twice (1 to 0
  and back to 1), and the three failures.
\<close>

theorem upvoteReport_toggle_twice_witness:
  "valid_oid ex_rid \<and>
   findById (ex_db SUBMITTED) ex_rid = Some (ex_report SUBMITTED) \<and>
   reportStatus (ex_report SUBMITTED) \<noteq> DELETED \<and>
   (\<exists>r1 r2 d1 d2.
      upvoteReport ex_voter ex_rid (ex_db SUBMITTED) = (Inr (upvotes r1), d1) \<and>
      findById d1 ex_rid = Some r1 \<and>
      upvoteReport ex_voter ex_rid d1 = (Inr (upvotes r2), d2) \<and>
      findById d2 ex_rid = Some r2 \<and>
      upvotes r1 = 0 \<and> ex_voter \<notin> set (upvotedBy r1) \<and>
      upvotes r2 = 1 \<and> set (upvotedBy r2) = {ex_voter}) \<and>
   findById (ex_db SUBMITTED) ex_other_rid = None \<and>
   upvoteReport ex_voter ex_other_rid (ex_db SUBMITTED) = (Inl NotFound, ex_db SUBMITTED) \<and>
   upvoteReport ex_voter ex_rid (ex_db DELETED) = (Inl InvalidState, ex_db DELETED) \<and>
   \<not> valid_oid ''report-1'' \<and>
   upvoteReport ex_voter ''report-1'' (ex_db SUBMITTED)
     = (Inl (ValidationError InvalidIdFormat), ex_db SUBMITTED)"
proof -
  have h: "valid_oid ex_rid \<and> findById (ex_db SUBMITTED) ex_rid = Some (ex_report SUBMITTED) \<and>
           reportStatus (ex_report SUBMITTED) \<noteq> DELETED"
    by (simp add: ex_valid ex_findById ex_report_def)
  have fields: "upvotes (ex_report SUBMITTED) = 1" "upvotedBy (ex_report SUBMITTED) = [ex_voter]"
    by (simp_all add: ex_report_def)
  have main: "\<exists>r1 r2 d1 d2.
      upvoteReport ex_voter ex_rid (ex_db SUBMITTED) = (Inr (upvotes r1), d1) \<and>
      findById d1 ex_rid = Some r1 \<and>
      upvoteReport ex_voter ex_rid d1 = (Inr (upvotes r2), d2) \<and>
      findById d2 ex_rid = Some r2 \<and>
      upvotes r1 = 0 \<and> ex_voter \<notin> set (upvotedBy r1) \<and>
      upvotes r2 = 1 \<and> set (upvotedBy r2) = {ex_voter}"
    using upvoteReport_toggle_twice [of ex_rid ex_voter "ex_db SUBMITTED" "ex_report SUBMITTED"] h
    by (simp add: fields) blast
  have nf: "findById (ex_db SUBMITTED) ex_other_rid = None \<and>
      upvoteReport ex_voter ex_other_rid (ex_db SUBMITTED) = (Inl NotFound, ex_db SUBMITTED)"
    using upvoteReport_toggle_twice [of ex_other_rid ex_voter "ex_db SUBMITTED" "ex_report SUBMITTED"]
    by (simp add: ex_valid ex_findById)
  have del: "upvoteReport ex_voter ex_rid (ex_db DELETED) = (Inl InvalidState, ex_db DELETED)"
    using upvoteReport_toggle_twice [of ex_rid ex_voter "ex_db DELETED" "ex_report DELETED"]
    by (simp add: ex_valid ex_findById ex_report_def)
  have bad: "\<not> valid_oid ''report-1''"
    by (simp add: valid_oid_def)
  have fmt: "upvoteReport ex_voter ''report-1'' (ex_db SUBMITTED)
     = (Inl (ValidationError InvalidIdFormat), ex_db SUBMITTED)"
    using upvoteReport_toggle_twice [of "''report-1''" ex_voter "ex_db SUBMITTED" "ex_report SUBMITTED"] bad
    by simp
  show ?thesis using h main nf del bad fmt by simp
qed

text \<open>
  Claim C6 as stated fails twice. A report whose \<^verbatim>\<open>upvotedBy\<close> holds the user
  while \<^verbatim>\<open>upvotes\<close> is 0: the removal branch returns and stores -1. A report id
  that is not 24 hexadecimal digits belongs to no report, and the call fails with the
  id-format validation error (status 400), not with NotFound.
\<close>

theorem upvoteReport_no_floor_counterexample:
  "findById (ex_db SUBMITTED\<lparr>reports := [(ex_rid, (ex_report SUBMITTED)\<lparr>upvotes := 0\<rparr>)]\<rparr>) ex_rid
     = Some ((ex_report SUBMITTED)\<lparr>upvotes := 0\<rparr>) \<and>
   fst (upvoteReport ex_voter ex_rid
          (ex_db SUBMITTED\<lparr>reports := [(ex_rid, (ex_report SUBMITTED)\<lparr>upvotes := 0\<rparr>)]\<rparr>))
     = Inr (- 1) \<and>
   map_option upvotes
     (findById (snd (upvoteReport ex_voter ex_rid
          (ex_db SUBMITTED\<lparr>reports := [(ex_rid, (ex_report SUBMITTED)\<lparr>upvotes := 0\<rparr>)]\<rparr>))) ex_rid)
     = Some (- 1) \<and>
   findById (ex_db SUBMITTED) ''report-1'' = None \<and>
   fst (upvoteReport ex_voter ''report-1'' (ex_db SUBMITTED)) = Inl (ValidationError InvalidIdFormat) \<and>
   fst (upvoteReport ex_voter ''report-1'' (ex_db SUBMITTED)) \<noteq> Inl NotFound"
proof -
  let ?d = "ex_db SUBMITTED\<lparr>reports := [(ex_rid, (ex_report SUBMITTED)\<lparr>upvotes := 0\<rparr>)]\<rparr>"
  have f: "findById ?d ex_rid = Some ((ex_report SUBMITTED)\<lparr>upvotes := 0\<rparr>)"
    by (simp add: findById_def)
  have flds: "reportStatus ((ex_report SUBMITTED)\<lparr>upvotes := 0\<rparr>) = SUBMITTED"
    "upvotedBy ((ex_report SUBMITTED)\<lparr>upvotes := 0\<rparr>) = [ex_voter]"
    by (simp_all add: ex_report_def)
  have u: "upvoteReport ex_voter ex_rid ?d =
     (Inr (- 1), save_report ex_rid ((ex_report SUBMITTED)\<lparr>upvotes := - 1, upvotedBy := []\<rparr>) ?d)"
    by (simp add: upvoteReport_def ex_valid f flds Let_def)
  have g: "findById (ex_db SUBMITTED) ''report-1'' = None"
    by (simp add: findById_def ex_db_def ex_rid_def)
  have b: "upvoteReport ex_voter ''report-1'' (ex_db SUBMITTED)
     = (Inl (ValidationError InvalidIdFormat), ex_db SUBMITTED)"
    by (simp add: upvoteReport_def valid_oid_def)
  show ?thesis
    by (simp add: f u g b findById_save_report)
qed

section \<open>Resolution and awards\<close>

lemma award_points_users:
  "users (award_points n uid d) uid' =
     (if uid' = uid then map_option (addPoints n) (users d uid) else users d uid')"
  by (simp add: award_points_def save_user_def addPoints_def split: option.splits)

lemma award_points_reports: "reports (award_points n uid d) = reports d"
  by (simp add: award_points_def save_user_def split: option.splits)

lemma award_points_queue: "ml_queue (award_points n uid d) = ml_queue d"
  by (simp add: award_points_def save_user_def split: option.splits)

lemma award_upvoters_reports: "reports (award_upvoters xs d) = reports d"
  by (induction xs arbitrary: d) (simp_all add: award_points_reports)

lemma award_upvoters_queue: "ml_queue (award_upvoters xs d) = ml_queue d"
  by (induction xs arbitrary: d) (simp_all add: award_points_queue)

lemma findById_award_points: "findById (award_points n uid d) rid = findById d rid"
  by (simp add: findById_def award_points_reports)

lemma findById_award_upvoters: "findById (award_upvoters xs d) rid = findById d rid"
  by (simp add: findById_def award_upvoters_reports)

lemma award_upvoters_users:
  "users (award_upvoters xs d) uid =
     (if uid \<in> set xs then map_option (addPoints (5 * count_list xs uid)) (users d uid)
      else users d uid)"
proof (induction xs arbitrary: d)
  case Nil
  show ?case by simp
next
  case (Cons x xs)
  show ?case
  proof (cases "x = uid")
    case True
    then show ?thesis
      by (cases "users d uid")
         (simp_all add: Cons.IH award_points_users addPoints_addPoints add.commute)
  next
    case False
    then show ?thesis
      by (simp add: Cons.IH award_points_users)
  qed
qed

lemma count_list_populate:
  "users d uid \<noteq> None \<Longrightarrow> count_list (populate_upvotedBy d xs) uid = count_list xs uid"
  by (induction xs) (simp_all add: populate_upvotedBy_def)

lemma set_populate:
  "users d uid \<noteq> None \<Longrightarrow> (uid \<in> set (populate_upvotedBy d xs)) = (uid \<in> set xs)"
  by (simp add: populate_upvotedBy_def)

lemma not_in_populate:
  "users d uid = None \<Longrightarrow> uid \<notin> set (populate_upvotedBy d xs)"
  by (simp add: populate_upvotedBy_def)

lemma resolveReport_users: "users (snd (resolveReport rid d)) = users d"
  by (simp add: resolveReport_def Let_def users_save_report split: option.splits)

lemma resolveReport_accepts:
  "findById d rid = Some r \<Longrightarrow> reportStatus r \<in> {SUBMITTED, ACKNOWLEDGED} \<Longrightarrow>
   resolveReport rid d =
     (Inr (r\<lparr>reportStatus := RESOLVED\<rparr>), save_report rid (r\<lparr>reportStatus := RESOLVED\<rparr>) d)"
  by (auto simp add: resolveReport_def Let_def)

text \<open>
  Claim C1, as amended. Resolving through the owner route
  (\<^verbatim>\<open>updateReportStatusResolve\<close>) a report that is ACKNOWLEDGED, by its owner,
  sets it RESOLVED and gives every existing user 20 points if they are the submitter plus
  5 points for each entry of \<^verbatim>\<open>upvotedBy\<close> that names them (so exactly 5 to each
  upvoter when the entries are distinct), in \<^verbatim>\<open>points\<close> and in
  \<^verbatim>\<open>monthlyPoints\<close>; the badge of every user who received points is the one
  the thresholds give for the new points, and users who received none are unchanged. A
  resolve request against a report that is already RESOLVED is rejected on both routes and
  leaves the store, so every user's points, unchanged.
\<close>

theorem updateReportStatusResolve_awards_once:
  "(findById d rid = Some r \<and> users d (userId r) \<noteq> None \<and> userId r = actor \<and>
    reportStatus r = ACKNOWLEDGED \<longrightarrow>
      (\<exists>d'. updateReportStatusResolve actor rid d = (Inr (r\<lparr>reportStatus := RESOLVED\<rparr>), d') \<and>
            findById d' rid = Some (r\<lparr>reportStatus := RESOLVED\<rparr>) \<and>
            (\<forall>uid. users d uid = None \<longrightarrow> users d' uid = None) \<and>
            (\<forall>uid u. users d uid = Some u \<longrightarrow>
               (\<exists>u'. users d' uid = Some u' \<and>
                  points u' = points u + (if uid = userId r then 20 else 0)
                                + 5 * count_list (upvotedBy r) uid \<and>
                  monthlyPoints u' = monthlyPoints u + (if uid = userId r then 20 else 0)
                                + 5 * count_list (upvotedBy r) uid \<and>
                  lastMonthlyReset u' = lastMonthlyReset u \<and>
                  badge u' =
                    (if uid = userId r \<or> uid \<in> set (upvotedBy r)
                     then (if points u' \<ge> 1000 then Platinum
                           else if points u' \<ge> 500 then Gold
                           else if points u' \<ge> 200 then Silver
                           else Bronze)
                     else badge u))))) \<and>
   (findById d rid = Some r \<and> reportStatus r = RESOLVED \<longrightarrow>
      resolveReport rid d = (Inl InvalidTransition, d) \<and>
      snd (updateReportStatusResolve actor rid d) = d \<and>
      fst (updateReportStatusResolve actor rid d) \<in> {Inl ServerError, Inl Forbidden, Inl InvalidTransition} \<and>
      (users d (userId r) \<noteq> None \<and> userId r = actor \<longrightarrow>
         updateReportStatusResolve actor rid d = (Inl InvalidTransition, d)))"
proof (intro conjI impI)
  assume a: "findById d rid = Some r \<and> users d (userId r) \<noteq> None \<and> userId r = actor \<and>
    reportStatus r = ACKNOWLEDGED"
  define r' where "r' = r\<lparr>reportStatus := RESOLVED\<rparr>"
  define d1 where "d1 = save_report rid r' d"
  define ups where "ups = populate_upvotedBy d (upvotedBy r)"
  define d' where "d' = award_upvoters ups (award_points 20 (userId r) d1)"
  from a obtain submitter where sub: "users d (userId r) = Some submitter"
    by blast
  from a have act: "actor = userId r" and fr: "findById d rid = Some r"
    and ack: "reportStatus r = ACKNOWLEDGED"
    by simp_all
  have res: "updateReportStatusResolve actor rid d = (Inr r', d')"
    unfolding act
    by (simp add: updateReportStatusResolve_def Let_def sub fr ack r'_def d1_def ups_def d'_def)
  have fnd: "findById d' rid = Some r'"
    by (simp add: findById_def d'_def award_upvoters_reports award_points_reports)
       (simp add: d1_def findById_save_report [unfolded findById_def])
  have us: "users d' uid =
      (if uid \<in> set ups
       then map_option (addPoints (5 * count_list ups uid))
              (if uid = userId r then map_option (addPoints 20) (users d uid) else users d uid)
       else (if uid = userId r then map_option (addPoints 20) (users d uid) else users d uid))" for uid
    by (simp add: d'_def award_upvoters_users award_points_users d1_def users_save_report)
  have none: "\<forall>uid. users d uid = None \<longrightarrow> users d' uid = None"
    by (simp add: us)
  have some: "\<forall>uid u. users d uid = Some u \<longrightarrow>
               (\<exists>u'. users d' uid = Some u' \<and>
                  points u' = points u + (if uid = userId r then 20 else 0)
                                + 5 * count_list (upvotedBy r) uid \<and>
                  monthlyPoints u' = monthlyPoints u + (if uid = userId r then 20 else 0)
                                + 5 * count_list (upvotedBy r) uid \<and>
                  lastMonthlyReset u' = lastMonthlyReset u \<and>
                  badge u' =
                    (if uid = userId r \<or> uid \<in> set (upvotedBy r)
                     then (if points u' \<ge> 1000 then Platinum
                           else if points u' \<ge> 500 then Gold
                           else if points u' \<ge> 200 then Silver
                           else Bronze)
                     else badge u))"
  proof (intro allI impI)
    fix uid u
    assume u: "users d uid = Some u"
    then have ex: "users d uid \<noteq> None" by simp
    have cnt: "count_list ups uid = count_list (upvotedBy r) uid"
      unfolding ups_def using ex by (rule count_list_populate)
    have mem: "(uid \<in> set ups) = (uid \<in> set (upvotedBy r))"
      unfolding ups_def using ex by (rule set_populate)
    have zero: "uid \<notin> set (upvotedBy r) \<Longrightarrow> count_list (upvotedBy r) uid = 0"
      by (simp add: count_list_0_iff)
    show "\<exists>u'. users d' uid = Some u' \<and>
                  points u' = points u + (if uid = userId r then 20 else 0)
                                + 5 * count_list (upvotedBy r) uid \<and>
                  monthlyPoints u' = monthlyPoints u + (if uid = userId r then 20 else 0)
                                + 5 * count_list (upvotedBy r) uid \<and>
                  lastMonthlyReset u' = lastMonthlyReset u \<and>
                  badge u' =
                    (if uid = userId r \<or> uid \<in> set (upvotedBy r)
                     then (if points u' \<ge> 1000 then Platinum
                           else if points u' \<ge> 500 then Gold
                           else if points u' \<ge> 200 then Silver
                           else Bronze)
                     else badge u)"
    proof -
      let ?total = "(if uid = userId r then 20 else 0) + 5 * count_list (upvotedBy r) uid"
      let ?u' = "if uid = userId r \<or> uid \<in> set (upvotedBy r) then addPoints ?total u else u"
      have fin: "users d' uid = Some ?u'"
        using zero u by (auto simp add: us cnt mem addPoints_addPoints)
      show ?thesis
        by (rule exI [of _ ?u']) (simp add: fin addPoints_fields zero)
    qed
  qed
  show "\<exists>d'. updateReportStatusResolve actor rid d = (Inr (r\<lparr>reportStatus := RESOLVED\<rparr>), d') \<and>
            findById d' rid = Some (r\<lparr>reportStatus := RESOLVED\<rparr>) \<and>
            (\<forall>uid. users d uid = None \<longrightarrow> users d' uid = None) \<and>
            (\<forall>uid u. users d uid = Some u \<longrightarrow>
               (\<exists>u'. users d' uid = Some u' \<and>
                  points u' = points u + (if uid = userId r then 20 else 0)
                                + 5 * count_list (upvotedBy r) uid \<and>
                  monthlyPoints u' = monthlyPoints u + (if uid = userId r then 20 else 0)
                                + 5 * count_list (upvotedBy r) uid \<and>
                  lastMonthlyReset u' = lastMonthlyReset u \<and>
                  badge u' =
                    (if uid = userId r \<or> uid \<in> set (upvotedBy r)
                     then (if points u' \<ge> 1000 then Platinum
                           else if points u' \<ge> 500 then Gold
                           else if points u' \<ge> 200 then Silver
                           else Bronze)
                     else badge u)))"
    unfolding r'_def [symmetric]
    using res fnd none some by (intro exI [of _ d'] conjI)
next
  assume b: "findById d rid = Some r \<and> reportStatus r = RESOLVED"
  then show "resolveReport rid d = (Inl InvalidTransition, d)"
    by (simp add: resolveReport_def)
  from b show "snd (updateReportStatusResolve actor rid d) = d"
    by (simp add: updateReportStatusResolve_def split: option.splits)
  from b show "fst (updateReportStatusResolve actor rid d) \<in> {Inl ServerError, Inl Forbidden, Inl InvalidTransition}"
    by (simp add: updateReportStatusResolve_def split: option.splits)
  assume c: "users d (userId r) \<noteq> None \<and> userId r = actor"
  with b show "updateReportStatusResolve actor rid d = (Inl InvalidTransition, d)"
    by (auto simp add: updateReportStatusResolve_def split: option.splits)
qed

text \<open>
  The theorem at the example store: the owner resolves the ACKNOWLEDGED report (20 points
  to the owner, 5 to the one upvoter), and both routes reject the RESOLVED report.
\<close>

theorem updateReportStatusResolve_awards_once_witness:
  "findById (ex_db ACKNOWLEDGED) ex_rid = Some (ex_report ACKNOWLEDGED) \<and>
   users (ex_db ACKNOWLEDGED) (userId (ex_report ACKNOWLEDGED)) \<noteq> None \<and>
   userId (ex_report ACKNOWLEDGED) = ex_owner \<and>
   reportStatus (ex_report ACKNOWLEDGED) = ACKNOWLEDGED \<and>
   (\<exists>d'. updateReportStatusResolve ex_owner ex_rid (ex_db ACKNOWLEDGED)
            = (Inr ((ex_report ACKNOWLEDGED)\<lparr>reportStatus := RESOLVED\<rparr>), d') \<and>
         (\<exists>u'. users d' ex_owner = Some u' \<and> points u' = 20 \<and> monthlyPoints u' = 20 \<and>
               badge u' = Bronze) \<and>
         (\<exists>u'. users d' ex_voter = Some u' \<and> points u' = 5 \<and> monthlyPoints u' = 5 \<and>
               badge u' = Bronze)) \<and>
   findById (ex_db RESOLVED) ex_rid = Some (ex_report RESOLVED) \<and>
   reportStatus (ex_report RESOLVED) = RESOLVED \<and>
   resolveReport ex_rid (ex_db RESOLVED) = (Inl InvalidTransition, ex_db RESOLVED) \<and>
   updateReportStatusResolve ex_owner ex_rid (ex_db RESOLVED)
     = (Inl InvalidTransition, ex_db RESOLVED)"
proof -
  have h: "findById (ex_db ACKNOWLEDGED) ex_rid = Some (ex_report ACKNOWLEDGED) \<and>
     users (ex_db ACKNOWLEDGED) (userId (ex_report ACKNOWLEDGED)) \<noteq> None \<and>
     userId (ex_report ACKNOWLEDGED) = ex_owner \<and>
     reportStatus (ex_report ACKNOWLEDGED) = ACKNOWLEDGED"
    by (simp add: ex_findById ex_users ex_report_fields)
  note t = updateReportStatusResolve_awards_once
    [of "ex_db ACKNOWLEDGED" ex_rid "ex_report ACKNOWLEDGED" ex_owner]
  from t h obtain d' where
    res: "updateReportStatusResolve ex_owner ex_rid (ex_db ACKNOWLEDGED)
            = (Inr ((ex_report ACKNOWLEDGED)\<lparr>reportStatus := RESOLVED\<rparr>), d')"
    and us: "\<forall>uid u. users (ex_db ACKNOWLEDGED) uid = Some u \<longrightarrow>
       (\<exists>u'. users d' uid = Some u' \<and>
          points u' = points u + (if uid = userId (ex_report ACKNOWLEDGED) then 20 else 0)
                        + 5 * count_list (upvotedBy (ex_report ACKNOWLEDGED)) uid \<and>
          monthlyPoints u' = monthlyPoints u + (if uid = userId (ex_report ACKNOWLEDGED) then 20 else 0)
                        + 5 * count_list (upvotedBy (ex_report ACKNOWLEDGED)) uid \<and>
          lastMonthlyReset u' = lastMonthlyReset u \<and>
          badge u' =
            (if uid = userId (ex_report ACKNOWLEDGED) \<or> uid \<in> set (upvotedBy (ex_report ACKNOWLEDGED))
             then (if points u' \<ge> 1000 then Platinum
                   else if points u' \<ge> 500 then Gold
                   else if points u' \<ge> 200 then Silver
                   else Bronze)
             else badge u))"
    by blast
  from us [rule_format, OF ex_users(1) [of ACKNOWLEDGED]]
  have o: "\<exists>u'. users d' ex_owner = Some u' \<and> points u' = 20 \<and> monthlyPoints u' = 20 \<and>
               badge u' = Bronze"
    by (auto simp add: ex_report_fields ex_user_fields ex_ids_distinct)
  from us [rule_format, OF ex_users(2) [of ACKNOWLEDGED]]
  have v: "\<exists>u'. users d' ex_voter = Some u' \<and> points u' = 5 \<and> monthlyPoints u' = 5 \<and>
               badge u' = Bronze"
    by (auto simp add: ex_report_fields ex_user_fields ex_ids_distinct)
  have h2: "findById (ex_db RESOLVED) ex_rid = Some (ex_report RESOLVED) \<and>
     reportStatus (ex_report RESOLVED) = RESOLVED"
    by (simp add: ex_findById ex_report_fields)
  have own: "users (ex_db RESOLVED) (userId (ex_report RESOLVED)) \<noteq> None \<and>
     userId (ex_report RESOLVED) = ex_owner"
    by (simp add: ex_users ex_report_fields)
  note t2 = updateReportStatusResolve_awards_once
    [of "ex_db RESOLVED" ex_rid "ex_report RESOLVED" ex_owner]
  from t2 h2 own have r1: "resolveReport ex_rid (ex_db RESOLVED) = (Inl InvalidTransition, ex_db RESOLVED)"
    and r2: "updateReportStatusResolve ex_owner ex_rid (ex_db RESOLVED)
     = (Inl InvalidTransition, ex_db RESOLVED)"
    by blast+
  show ?thesis using h res o v h2 r1 r2 by blast
qed

text \<open>
  Claim C1 as stated fails twice. For a SUBMITTED report the owner route rejects the
  request with InvalidTransition (its guard admits ACKNOWLEDGED only) and changes nothing,
  and the other route resolves it and leaves both users with the points they had. And one
  report can be awarded more than once: resolved by its owner, acknowledged again through
  the admin route and resolved again, it leaves the owner with 40 points.
\<close>

theorem resolve_submitted_counterexample:
  "reportStatus (ex_report SUBMITTED) \<in> {SUBMITTED, ACKNOWLEDGED} \<and>
   findById (ex_db SUBMITTED) ex_rid = Some (ex_report SUBMITTED) \<and>
   userId (ex_report SUBMITTED) = ex_owner \<and>
   users (ex_db SUBMITTED) ex_owner = Some ex_user \<and>
   points ex_user = 0 \<and>
   updateReportStatusResolve ex_owner ex_rid (ex_db SUBMITTED)
     = (Inl InvalidTransition, ex_db SUBMITTED) \<and>
   fst (resolveReport ex_rid (ex_db SUBMITTED))
     = Inr ((ex_report SUBMITTED)\<lparr>reportStatus := RESOLVED\<rparr>) \<and>
   users (snd (resolveReport ex_rid (ex_db SUBMITTED))) ex_owner = Some ex_user \<and>
   users (snd (resolveReport ex_rid (ex_db SUBMITTED))) ex_voter = Some ex_user \<and>
   map_option points
     (users
       (snd (updateReportStatusResolve ex_owner ex_rid
         (snd (updateReportAcknowledge ex_admin 1700000000 ex_rid
           (snd (updateReportStatusResolve ex_owner ex_rid (ex_db ACKNOWLEDGED)))))))
       ex_owner) = Some 40"
proof -
  define r1 where "r1 = (ex_report ACKNOWLEDGED)\<lparr>reportStatus := RESOLVED\<rparr>"
  define d1 where "d1 = award_upvoters [ex_voter]
         (award_points 20 ex_owner (save_report ex_rid r1 (ex_db ACKNOWLEDGED)))"
  define r2 where "r2 = r1\<lparr>isAcknowledged := True, acknowledgedAt := Some 1700000000,
                 acknowledgedBy := Some ex_admin, reportStatus := ACKNOWLEDGED\<rparr>"
  define d2 where "d2 = save_report ex_rid r2 d1"
  define r3 where "r3 = r2\<lparr>reportStatus := RESOLVED\<rparr>"
  define d3 where "d3 = award_upvoters [ex_voter]
         (award_points 20 ex_owner (save_report ex_rid r3 d2))"
  have a: "updateReportStatusResolve ex_owner ex_rid (ex_db ACKNOWLEDGED) = (Inr r1, d1)"
    by (simp add: updateReportStatusResolve_def ex_findById ex_report_fields ex_users Let_def
        populate_upvotedBy_def r1_def d1_def)
  have f1: "findById d1 ex_rid = Some r1"
    by (simp add: d1_def findById_award_points findById_save_report)
  have b: "updateReportAcknowledge ex_admin 1700000000 ex_rid d1 = (Inr r2, d2)"
    by (simp add: updateReportAcknowledge_def f1 Let_def r2_def d2_def)
  have f2: "findById d2 ex_rid = Some r2"
    by (simp add: d2_def findById_save_report)
  have u2: "users d2 ex_owner = Some (addPoints 20 ex_user)"
    "users d2 ex_voter = Some (addPoints 5 ex_user)"
    by (simp_all add: d2_def d1_def users_save_report award_points_users ex_users ex_ids_distinct)
  have flds: "userId r2 = ex_owner" "reportStatus r2 = ACKNOWLEDGED" "upvotedBy r2 = [ex_voter]"
    by (simp_all add: r2_def r1_def ex_report_fields)
  have c: "updateReportStatusResolve ex_owner ex_rid d2 = (Inr r3, d3)"
    by (simp add: updateReportStatusResolve_def f2 flds u2 Let_def populate_upvotedBy_def
        r3_def d3_def)
  have u3: "users d3 ex_owner = Some (addPoints 40 ex_user)"
    by (simp add: d3_def users_save_report award_points_users u2 ex_ids_distinct
        addPoints_addPoints)
  have twice: "map_option points
     (users
       (snd (updateReportStatusResolve ex_owner ex_rid
         (snd (updateReportAcknowledge ex_admin 1700000000 ex_rid
           (snd (updateReportStatusResolve ex_owner ex_rid (ex_db ACKNOWLEDGED)))))))
       ex_owner) = Some 40"
    by (simp add: a b c u3 addPoints_fields ex_user_fields)
  have first: "reportStatus (ex_report SUBMITTED) \<in> {SUBMITTED, ACKNOWLEDGED} \<and>
   findById (ex_db SUBMITTED) ex_rid = Some (ex_report SUBMITTED) \<and>
   userId (ex_report SUBMITTED) = ex_owner \<and>
   users (ex_db SUBMITTED) ex_owner = Some ex_user \<and>
   points ex_user = 0 \<and>
   updateReportStatusResolve ex_owner ex_rid (ex_db SUBMITTED)
     = (Inl InvalidTransition, ex_db SUBMITTED) \<and>
   fst (resolveReport ex_rid (ex_db SUBMITTED))
     = Inr ((ex_report SUBMITTED)\<lparr>reportStatus := RESOLVED\<rparr>) \<and>
   users (snd (resolveReport ex_rid (ex_db SUBMITTED))) ex_owner = Some ex_user \<and>
   users (snd (resolveReport ex_rid (ex_db SUBMITTED))) ex_voter = Some ex_user"
    by (simp add: ex_report_fields ex_findById ex_users ex_user_fields
      updateReportStatusResolve_def resolveReport_def Let_def users_save_report)
  show ?thesis using first twice by simp
qed

text \<open>
  Claim C2, evaluated on the ACKNOWLEDGED example report with the owner as actor, where
  both routes accept the request. Both answer with the report set to RESOLVED and store
  it so; \<^verbatim>\<open>resolveReport\<close> leaves the owner and the upvoter at 0 points,
  \<^verbatim>\<open>updateReportStatusResolve\<close> leaves them at 20 and 5.
\<close>

theorem resolve_routes_differ_on_awards:
  "findById (ex_db ACKNOWLEDGED) ex_rid = Some (ex_report ACKNOWLEDGED) \<and>
   userId (ex_report ACKNOWLEDGED) = ex_owner \<and>
   reportStatus (ex_report ACKNOWLEDGED) = ACKNOWLEDGED \<and>
   fst (resolveReport ex_rid (ex_db ACKNOWLEDGED))
     = Inr ((ex_report ACKNOWLEDGED)\<lparr>reportStatus := RESOLVED\<rparr>) \<and>
   fst (updateReportStatusResolve ex_owner ex_rid (ex_db ACKNOWLEDGED))
     = Inr ((ex_report ACKNOWLEDGED)\<lparr>reportStatus := RESOLVED\<rparr>) \<and>
   findById (snd (resolveReport ex_rid (ex_db ACKNOWLEDGED))) ex_rid
     = Some ((ex_report ACKNOWLEDGED)\<lparr>reportStatus := RESOLVED\<rparr>) \<and>
   findById (snd (updateReportStatusResolve ex_owner ex_rid (ex_db ACKNOWLEDGED))) ex_rid
     = Some ((ex_report ACKNOWLEDGED)\<lparr>reportStatus := RESOLVED\<rparr>) \<and>
   map_option points (users (snd (resolveReport ex_rid (ex_db ACKNOWLEDGED))) ex_owner) = Some 0 \<and>
   map_option points (users (snd (resolveReport ex_rid (ex_db ACKNOWLEDGED))) ex_voter) = Some 0 \<and>
   map_option points
     (users (snd (updateReportStatusResolve ex_owner ex_rid (ex_db ACKNOWLEDGED))) ex_owner) = Some 20 \<and>
   map_option points
     (users (snd (updateReportStatusResolve ex_owner ex_rid (ex_db ACKNOWLEDGED))) ex_voter) = Some 5"
proof -
  have a: "resolveReport ex_rid (ex_db ACKNOWLEDGED) =
      (Inr ((ex_report ACKNOWLEDGED)\<lparr>reportStatus := RESOLVED\<rparr>),
       save_report ex_rid ((ex_report ACKNOWLEDGED)\<lparr>reportStatus := RESOLVED\<rparr>) (ex_db ACKNOWLEDGED))"
    by (simp add: resolveReport_def ex_findById ex_report_fields Let_def)
  have b: "updateReportStatusResolve ex_owner ex_rid (ex_db ACKNOWLEDGED) =
      (Inr ((ex_report ACKNOWLEDGED)\<lparr>reportStatus := RESOLVED\<rparr>),
       award_upvoters [ex_voter]
         (award_points 20 ex_owner
           (save_report ex_rid ((ex_report ACKNOWLEDGED)\<lparr>reportStatus := RESOLVED\<rparr>)
              (ex_db ACKNOWLEDGED))))"
    by (simp add: updateReportStatusResolve_def ex_findById ex_report_fields ex_users Let_def
        populate_upvotedBy_def)
  show ?thesis
    by (simp add: a b ex_findById ex_report_fields ex_users ex_user_fields ex_ids_distinct
        findById_save_report users_save_report award_points_users award_points_reports
        addPoints_fields findById_award_points)
qed

section \<open>Report creation\<close>

lemma createReport_numbers_in_range:
  "lat \<noteq> 0 \<Longrightarrow> lng \<noteq> 0 \<Longrightarrow> - 90 \<le> lat \<Longrightarrow> lat \<le> 90 \<Longrightarrow> - 180 \<le> lng \<Longrightarrow> lng \<le> 180 \<Longrightarrow>
   b_latitude body = JNum (Fin lat) \<Longrightarrow> b_longitude body = JNum (Fin lng) \<Longrightarrow>
   createReport p body img voice uid new_id d = (Inr r, d') \<Longrightarrow>
   coordinates r = [Fin lng, Fin lat] \<and> reportStatus r = SUBMITTED \<and>
   reports d' = reports d @ [(new_id, r)]"
  by (auto simp add: createReport_def Let_def split: if_splits)

lemma createReport_numbers_out_of_range:
  "lat < - 90 \<or> 90 < lat \<or> lng < - 180 \<or> 180 < lng \<Longrightarrow>
   b_latitude body = JNum (Fin lat) \<Longrightarrow> b_longitude body = JNum (Fin lng) \<Longrightarrow>
   isl (fst (createReport p body img voice uid new_id d)) \<and>
   snd (createReport p body img voice uid new_id d) = d"
  by (auto simp add: createReport_def Let_def)

lemma createReport_string_not_missing:
  "b_latitude body = JStr s \<Longrightarrow> s \<noteq> [] \<Longrightarrow> b_longitude body = JStr t \<Longrightarrow> t \<noteq> [] \<Longrightarrow>
   fst (createReport p body img voice uid new_id d) \<noteq> Inl (ValidationError MissingCoordinates)"
  by (simp add: createReport_def Let_def)

text \<open>
  Claim C10, as amended. A create-report request whose latitude or longitude is the
  number 0, null or absent is rejected with the missing-coordinates validation error (status 400), and the
  store (reports, users, queue) is as before, whatever the other fields are: the presence
  test \<^verbatim>\<open>!latitude || !longitude\<close> takes the number 0 as missing.
\<close>

theorem createReport_zero_coordinate_rejected:
  "b_latitude body \<in> {Undefined, Null, JNum (Fin 0)} \<or>
   b_longitude body \<in> {Undefined, Null, JNum (Fin 0)} \<Longrightarrow>
   createReport p body img voice uid new_id d = (Inl (ValidationError MissingCoordinates), d)"
  by (auto simp add: createReport_def Let_def)

text \<open>
  The theorem at (0, 77.59), (12.97, 0) and an absent latitude; the first two pairs lie
  inside the ranges the next test of the handler admits.
\<close>

theorem createReport_zero_coordinate_rejected_witness:
  "b_latitude (ex_body (JNum (Fin 0)) (JNum (Fin (7759 / 100)))) = JNum (Fin 0) \<and>
   \<not> js_lt (Fin 0) (- 90) \<and> \<not> js_gt (Fin 0) 90 \<and>
   \<not> js_lt (Fin (7759 / 100)) (- 180) \<and> \<not> js_gt (Fin (7759 / 100)) 180 \<and>
   createReport ex_platform (ex_body (JNum (Fin 0)) (JNum (Fin (7759 / 100))))
       None None ex_owner ex_other_rid (ex_db SUBMITTED)
     = (Inl (ValidationError MissingCoordinates), ex_db SUBMITTED) \<and>
   b_longitude (ex_body (JNum (Fin (1297 / 100))) (JNum (Fin 0))) = JNum (Fin 0) \<and>
   \<not> js_lt (Fin (1297 / 100)) (- 90) \<and> \<not> js_gt (Fin (1297 / 100)) 90 \<and>
   \<not> js_lt (Fin 0) (- 180) \<and> \<not> js_gt (Fin 0) 180 \<and>
   createReport ex_platform (ex_body (JNum (Fin (1297 / 100))) (JNum (Fin 0)))
       None None ex_owner ex_other_rid (ex_db SUBMITTED)
     = (Inl (ValidationError MissingCoordinates), ex_db SUBMITTED) \<and>
   b_latitude (ex_body Undefined (JNum (Fin (7759 / 100)))) = Undefined \<and>
   createReport ex_platform (ex_body Undefined (JNum (Fin (7759 / 100))))
       None None ex_owner ex_other_rid (ex_db SUBMITTED)
     = (Inl (ValidationError MissingCoordinates), ex_db SUBMITTED) \<and>
   status_code (ValidationError MissingCoordinates) = 400"
  using
    createReport_zero_coordinate_rejected
      [of "ex_body (JNum (Fin 0)) (JNum (Fin (7759 / 100)))" ex_platform None None ex_owner
          ex_other_rid "ex_db SUBMITTED"]
    createReport_zero_coordinate_rejected
      [of "ex_body (JNum (Fin (1297 / 100))) (JNum (Fin 0))" ex_platform None None ex_owner
          ex_other_rid "ex_db SUBMITTED"]
    createReport_zero_coordinate_rejected
      [of "ex_body Undefined (JNum (Fin (7759 / 100)))" ex_platform None None ex_owner
          ex_other_rid "ex_db SUBMITTED"]
  by (simp add: ex_body_def)

text \<open>
  Claim C10 as stated fails for a 0 that arrives as a string. The create routes read a
  multipart form, whose fields are strings: latitude \<^verbatim>\<open>'0'\<close> is a non-empty
  string, so the presence test lets it pass, the range test reads it as the number 0, and
  the report is created with coordinates [77.59, 0].
\<close>

theorem createReport_string_zero_counterexample:
  "b_latitude (ex_body (JStr ''0'') (JStr ''77.59'')) = JStr ''0'' \<and>
   str_to_number ex_form_platform ''0'' = Fin 0 \<and>
   str_parse_float ex_form_platform ''0'' = Fin 0 \<and>
   map_sum id coordinates
     (fst (createReport ex_form_platform (ex_body (JStr ''0'') (JStr ''77.59''))
             None None ex_owner ex_other_rid (ex_db SUBMITTED)))
     = Inr [Fin (7759 / 100), Fin 0] \<and>
   fst (createReport ex_form_platform (ex_body (JStr ''0'') (JStr ''77.59''))
          None None ex_owner ex_other_rid (ex_db SUBMITTED))
     \<noteq> Inl (ValidationError MissingCoordinates) \<and>
   map fst (reports (snd (createReport ex_form_platform (ex_body (JStr ''0'') (JStr ''77.59''))
          None None ex_owner ex_other_rid (ex_db SUBMITTED))))
     = [ex_rid, ex_other_rid]"
  by (simp add: createReport_def ex_body_def ex_form_platform_def Let_def
      ex_findById [unfolded findById_def] ex_db_def ex_ids_distinct)

text \<open>
  Claim C8, evaluated at latitude 0 and longitude 77.59, both inside the ranges: the
  request is rejected with the missing-coordinates validation error and the store is
  unchanged. At (12.97, 77.59) the report is created with coordinates
  [77.59, 12.97], longitude first.
\<close>

theorem createReport_equator_rejected:
  "\<not> js_lt (Fin 0) (- 90) \<and> \<not> js_gt (Fin 0) 90 \<and>
   \<not> js_lt (Fin (7759 / 100)) (- 180) \<and> \<not> js_gt (Fin (7759 / 100)) 180 \<and>
   createReport ex_platform (ex_body (JNum (Fin 0)) (JNum (Fin (7759 / 100))))
       None None ex_owner ex_other_rid (ex_db SUBMITTED)
     = (Inl (ValidationError MissingCoordinates), ex_db SUBMITTED) \<and>
   map_sum id coordinates
     (fst (createReport ex_platform (ex_body (JNum (Fin (1297 / 100))) (JNum (Fin (7759 / 100))))
             None None ex_owner ex_other_rid (ex_db SUBMITTED)))
     = Inr [Fin (7759 / 100), Fin (1297 / 100)]"
  by (simp add: createReport_def ex_body_def ex_platform_def Let_def
      ex_findById [unfolded findById_def])

section \<open>Acknowledgement\<close>

lemma updateReportAcknowledge_any_status:
  "findById d rid = Some r \<Longrightarrow>
   fst (updateReportAcknowledge adminId now rid d) =
     Inr (r\<lparr>isAcknowledged := True, acknowledgedAt := Some now,
            acknowledgedBy := Some adminId, reportStatus := ACKNOWLEDGED\<rparr>)"
  by (simp add: updateReportAcknowledge_def Let_def)

lemma acknowledgeReport_sets_status_only:
  "findById d rid = Some r \<Longrightarrow> reportStatus r = SUBMITTED \<Longrightarrow>
   findById (snd (acknowledgeReport rid d)) rid = Some (r\<lparr>reportStatus := ACKNOWLEDGED\<rparr>)"
  by (simp add: acknowledgeReport_def Let_def findById_save_report)

lemma acknowledgeReport_rejects:
  "findById d rid = Some r \<Longrightarrow> reportStatus r \<noteq> SUBMITTED \<Longrightarrow>
   acknowledgeReport rid d = (Inl InvalidTransition, d)"
  by (simp add: acknowledgeReport_def)

text \<open>
  Claim C3, evaluated on the example report. The admin-route handler
  \<^verbatim>\<open>updateReportAcknowledge\<close> accepts a RESOLVED report and sets it back to
  ACKNOWLEDGED, where the report-route handler \<^verbatim>\<open>acknowledgeReport\<close> answers
  InvalidTransition and changes nothing. The report-route handler acknowledges a
  SUBMITTED report and leaves \<^verbatim>\<open>acknowledgedAt\<close> and
  \<^verbatim>\<open>acknowledgedBy\<close> unset, where the admin-route handler stamps both.
\<close>

theorem acknowledge_handlers_differ:
  "reportStatus (ex_report RESOLVED) \<noteq> SUBMITTED \<and>
   fst (updateReportAcknowledge ex_admin 1700000000 ex_rid (ex_db RESOLVED))
     = Inr ((ex_report RESOLVED)\<lparr>isAcknowledged := True, acknowledgedAt := Some 1700000000,
              acknowledgedBy := Some ex_admin, reportStatus := ACKNOWLEDGED\<rparr>) \<and>
   map_option reportStatus
     (findById (snd (updateReportAcknowledge ex_admin 1700000000 ex_rid (ex_db RESOLVED))) ex_rid)
     = Some ACKNOWLEDGED \<and>
   acknowledgeReport ex_rid (ex_db RESOLVED) = (Inl InvalidTransition, ex_db RESOLVED) \<and>
   fst (acknowledgeReport ex_rid (ex_db SUBMITTED))
     = Inr ((ex_report SUBMITTED)\<lparr>reportStatus := ACKNOWLEDGED\<rparr>) \<and>
   map_option acknowledgedAt (findById (snd (acknowledgeReport ex_rid (ex_db SUBMITTED))) ex_rid)
     = Some None \<and>
   map_option acknowledgedBy (findById (snd (acknowledgeReport ex_rid (ex_db SUBMITTED))) ex_rid)
     = Some None \<and>
   map_option acknowledgedAt
     (findById (snd (updateReportAcknowledge ex_admin 1700000000 ex_rid (ex_db SUBMITTED))) ex_rid)
     = Some (Some 1700000000) \<and>
   map_option acknowledgedBy
     (findById (snd (updateReportAcknowledge ex_admin 1700000000 ex_rid (ex_db SUBMITTED))) ex_rid)
     = Some (Some ex_admin)"
  by (simp add: updateReportAcknowledge_def acknowledgeReport_def ex_findById ex_report_fields
      Let_def findById_save_report)

section \<open>Soft delete and listings\<close>

lemma deleteReport_keeps_document:
  "findById d rid = Some r \<Longrightarrow>
   findById (snd (deleteReport rid d)) rid = Some (r\<lparr>reportStatus := DELETED\<rparr>)"
  by (simp add: deleteReport_def findById_save_report)

lemma filtered_listings_exclude_deleted:
  "(i, r) \<in> set (getUserReports uid d) \<Longrightarrow> reportStatus r \<noteq> DELETED"
  "(i, r) \<in> set (getAllReports None q_department d) \<Longrightarrow> reportStatus r \<noteq> DELETED"
  by (auto simp add: getUserReports_def getAllReports_def find_reports_def)

lemma adminGetAllReports_all: "adminGetAllReports d = reports d"
  by (simp add: adminGetAllReports_def find_reports_def)

text \<open>
  Claim C9, evaluated on the example store. \<^verbatim>\<open>deleteReport\<close> keeps the document
  and sets it DELETED; a lookup by id finds it. The owner's listing and the report
  controller's \<^verbatim>\<open>getAllReports\<close> without parameters leave it out; the admin
  controller's \<^verbatim>\<open>getAllReports\<close> returns it.
\<close>

theorem deleted_report_listed_by_admin:
  "fst (deleteReport ex_rid (ex_db ACKNOWLEDGED)) = Inr () \<and>
   findById (snd (deleteReport ex_rid (ex_db ACKNOWLEDGED))) ex_rid
     = Some ((ex_report ACKNOWLEDGED)\<lparr>reportStatus := DELETED\<rparr>) \<and>
   getUserReports ex_owner (snd (deleteReport ex_rid (ex_db ACKNOWLEDGED))) = [] \<and>
   getAllReports None None (snd (deleteReport ex_rid (ex_db ACKNOWLEDGED))) = [] \<and>
   adminGetAllReports (snd (deleteReport ex_rid (ex_db ACKNOWLEDGED)))
     = [(ex_rid, (ex_report ACKNOWLEDGED)\<lparr>reportStatus := DELETED\<rparr>)]"
proof -
  have d: "deleteReport ex_rid (ex_db ACKNOWLEDGED) =
      (Inr (), save_report ex_rid ((ex_report ACKNOWLEDGED)\<lparr>reportStatus := DELETED\<rparr>)
                 (ex_db ACKNOWLEDGED))"
    by (simp add: deleteReport_def ex_findById)
  have r: "reports (save_report ex_rid ((ex_report ACKNOWLEDGED)\<lparr>reportStatus := DELETED\<rparr>)
                 (ex_db ACKNOWLEDGED))
      = [(ex_rid, (ex_report ACKNOWLEDGED)\<lparr>reportStatus := DELETED\<rparr>)]"
    by (simp add: save_report_def ex_db_def)
  show ?thesis
    by (simp add: d r findById_save_report getUserReports_def getAllReports_def
        adminGetAllReports_def find_reports_def)
qed

end
